theory Spec2Isabelle
  imports Complex_Main
begin

section \<open>JSON values and Python strings\<close>

text \<open>
  Payloads, vendor data and results are the values \<open>json.loads\<close> produces: \<open>None\<close>,
  booleans, integers, floats, strings, lists and string-keyed dicts. Python's \<open>None\<close>
  and JSON \<open>null\<close> are the same value, \<open>JNull\<close>. A float is carried as mantissa and
  exponent and is never computed with; a dict is its items in insertion order, with
  pairwise distinct keys.
\<close>

datatype json =
    JNull
  | JBool bool
  | JInt int
  | JFloat int int
  | JStr string
  | JList "json list"
  | JDict "(string \<times> json) list"

text \<open>
  A character is a code point below 256. \<open>str.strip()\<close> removes the characters for which
  \<open>str.isspace\<close> holds from both ends: in that range these are 9 to 13, 28 to 32, 133 and
  160.
\<close>

definition isspace :: "char \<Rightarrow> bool" where
  "isspace c = ((of_char c :: nat) \<in> set [9, 10, 11, 12, 13, 28, 29, 30, 31, 32, 133, 160])"

definition strip :: "string \<Rightarrow> string" where
  "strip s = rev (dropWhile isspace (rev (dropWhile isspace s)))"

text \<open>
  \<open>str.lower()\<close>, character by character: the upper-case letters below 256 are 65 to 90
  and 192 to 222 without 215; each lies 32 below its lower-case letter, which is the same
  code point with bit 5 set.
\<close>

fun lower_char :: "char \<Rightarrow> char" where
  "lower_char (Char b0 b1 b2 b3 b4 b5 b6 b7) =
     (let n = (of_char (Char b0 b1 b2 b3 b4 b5 b6 b7) :: nat) in
      if (65 \<le> n \<and> n \<le> 90) \<or> (192 \<le> n \<and> n \<le> 222 \<and> n \<noteq> 215)
      then Char b0 b1 b2 b3 b4 True b6 b7
      else Char b0 b1 b2 b3 b4 b5 b6 b7)"

definition lower :: "string \<Rightarrow> string" where
  "lower s = map lower_char s"

text \<open>\<open>p in s\<close> on strings: \<open>p\<close> occurs in \<open>s\<close> as a contiguous substring.\<close>

fun startswith :: "string \<Rightarrow> string \<Rightarrow> bool" where
  "startswith [] s = True"
| "startswith (p # ps) [] = False"
| "startswith (p # ps) (c # cs) = (p = c \<and> startswith ps cs)"

fun contains :: "string \<Rightarrow> string \<Rightarrow> bool" where
  "contains p [] = startswith p []"
| "contains p (c # cs) = (startswith p (c # cs) \<or> contains p cs)"

fun is_dict :: "json \<Rightarrow> bool" where
  "is_dict (JDict items) = True"
| "is_dict v = False"

text \<open>Truth value of a JSON value in an \<open>if\<close>.\<close>

fun truthy :: "json \<Rightarrow> bool" where
  "truthy JNull = False"
| "truthy (JBool b) = b"
| "truthy (JInt i) = (i \<noteq> 0)"
| "truthy (JFloat m e) = (m \<noteq> 0)"
| "truthy (JStr s) = (s \<noteq> [])"
| "truthy (JList xs) = (xs \<noteq> [])"
| "truthy (JDict items) = (items \<noteq> [])"

fun type_name :: "json \<Rightarrow> string" where
  "type_name JNull = ''NoneType''"
| "type_name (JBool b) = ''bool''"
| "type_name (JInt i) = ''int''"
| "type_name (JFloat m e) = ''float''"
| "type_name (JStr s) = ''str''"
| "type_name (JList xs) = ''list''"
| "type_name (JDict items) = ''dict''"

text \<open>
  \<open>v.get(key, default)\<close>: a dict answers; any other value has no attribute \<open>get\<close> and the
  call raises AttributeError, returned here as \<open>Inl\<close> of the exception's text.
\<close>

definition quoted :: "string \<Rightarrow> string" where
  "quoted s = CHR 0x27 # s @ [CHR 0x27]"

fun py_get :: "json \<Rightarrow> string \<Rightarrow> json \<Rightarrow> string + json" where
  "py_get (JDict items) key dflt =
     Inr (case map_of items key of None \<Rightarrow> dflt | Some v \<Rightarrow> v)"
| "py_get v key dflt =
     Inl (quoted (type_name v) @ '' object has no attribute '' @ quoted ''get'')"

section \<open>shared/models.py\<close>

datatype JobStatus = PENDING | PROCESSING | COMPLETE | FAILED

record VendorRequest =
  job_id :: string
  req_payload :: "(string \<times> json) list"

record WebhookRequest =
  wh_job_id :: string
  wh_data :: "(string \<times> json) list"

record JobStatusResponse =
  resp_status :: JobStatus
  resp_result :: json
  resp_error :: "string option"
  resp_created_at :: int
  resp_updated_at :: int

definition pii_patterns :: "string list" where
  "pii_patterns = [''email'', ''phone'', ''ssn'', ''password'']"

definition is_pii_key :: "string \<Rightarrow> bool" where
  "is_pii_key key = list_ex (\<lambda>pii. contains pii (lower key)) pii_patterns"

text \<open>
  \<open>clean_vendor_data\<close>: a value that is not a dict is returned as it is. For a dict, the
  loop assigns \<open>cleaned[key]\<close> once for every item, in order, so the result is the items
  with each value replaced; the four branches are the source's \<open>isinstance\<close> chain.
\<close>

fun clean_vendor_data :: "json \<Rightarrow> json" where
  "clean_vendor_data (JDict items) =
     JDict (map (\<lambda>(key, val).
       (key, case val of
           JStr s \<Rightarrow>
             (let cleaned_value = strip s in
              if is_pii_key key then JStr ''[REDACTED]'' else JStr cleaned_value)
         | JDict d \<Rightarrow> clean_vendor_data (JDict d)
         | JList xs \<Rightarrow>
             JList (map (\<lambda>item. if is_dict item then clean_vendor_data item else item) xs)
         | other \<Rightarrow> other)) items)"
| "clean_vendor_data data = data"

section \<open>shared/database.py\<close>

text \<open>
  A document of the \<open>jobs\<close> collection. \<open>result\<close> is \<open>JNull\<close> and \<open>error\<close> is \<open>None\<close>
  while they are Python's \<open>None\<close>; the timestamps are clock readings.
\<close>

record job_doc =
  request_id :: string
  payload :: "(string \<times> json) list"
  status :: JobStatus
  created_at :: int
  updated_at :: int
  result :: json
  error :: "string option"

text \<open>
  The database manager's state is the collection, in insertion order, and whether the
  server answers: when it does not, every driver call raises.
\<close>

record DatabaseManager =
  jobs_collection :: "job_doc list"
  server_up :: bool

datatype db_error = DuplicateKeyError | ConnectionFailure | InvalidDocument

text \<open>
  What the driver can encode for the store. Before a document is sent the driver encodes
  it, and the encoder raises on an integer outside the signed 64-bit range
  (OverflowError) and on a key holding the NUL character (InvalidDocument); every other
  JSON value is encoded.
\<close>

fun bson_encodable :: "json \<Rightarrow> bool" where
  "bson_encodable (JInt i) = (- (2 ^ 63) \<le> i \<and> i < 2 ^ 63)"
| "bson_encodable (JList xs) = list_all bson_encodable xs"
| "bson_encodable (JDict items) =
     list_all (\<lambda>(key, val). CHR 0x00 \<notin> set key \<and> bson_encodable val) items"
| "bson_encodable v = True"

text \<open>
  The driver calls the manager makes. Each raises when the server does not answer, and
  \<open>insert_one\<close> and \<open>update_one\<close> raise when the document they send cannot be encoded.
  \<open>connect\<close> creates a unique index on \<open>request_id\<close>, so \<open>insert_one\<close> raises
  DuplicateKeyError when a document with the new document's \<open>request_id\<close> is in the
  collection. \<open>find_one\<close> returns the first document that matches. \<open>update_one\<close>
  applies the \<open>$set\<close> document to the first document that matches; its
  \<open>modified_count\<close> is 1 when that changed the document and 0 otherwise.
\<close>

definition insert_one :: "DatabaseManager \<Rightarrow> job_doc \<Rightarrow> db_error + DatabaseManager" where
  "insert_one db job =
     (if \<not> server_up db then Inl ConnectionFailure
      else if \<not> bson_encodable (JDict (payload job)) then Inl InvalidDocument
      else if list_ex (\<lambda>d. request_id d = request_id job) (jobs_collection db)
      then Inl DuplicateKeyError
      else Inr (db\<lparr>jobs_collection := jobs_collection db @ [job]\<rparr>))"

definition find_one :: "DatabaseManager \<Rightarrow> string \<Rightarrow> db_error + job_doc option" where
  "find_one db rid =
     (if \<not> server_up db then Inl ConnectionFailure
      else Inr (find (\<lambda>d. request_id d = rid) (jobs_collection db)))"

record update_data =
  set_status :: JobStatus
  set_updated_at :: int
  set_result :: "json option"
  set_error :: "string option"

definition apply_set :: "update_data \<Rightarrow> job_doc \<Rightarrow> job_doc" where
  "apply_set u d =
     d\<lparr>status := set_status u,
       updated_at := set_updated_at u,
       result := (case set_result u of None \<Rightarrow> result d | Some r \<Rightarrow> r),
       error := (case set_error u of None \<Rightarrow> error d | Some e \<Rightarrow> Some e)\<rparr>"

fun update_first :: "string \<Rightarrow> update_data \<Rightarrow> job_doc list \<Rightarrow> job_doc list \<times> nat" where
  "update_first rid u [] = ([], 0)"
| "update_first rid u (d # ds) =
     (if request_id d = rid
      then (apply_set u d # ds, if apply_set u d = d then 0 else 1)
      else (case update_first rid u ds of (ds', n) \<Rightarrow> (d # ds', n)))"

text \<open>
  Of the fields of a \<open>$set\<close> document only the result can fail to encode: the status
  and the error are strings and \<open>updated_at\<close> is a date.
\<close>

definition encodable_update :: "update_data \<Rightarrow> bool" where
  "encodable_update u = (case set_result u of None \<Rightarrow> True | Some r \<Rightarrow> bson_encodable r)"

definition update_one ::
  "DatabaseManager \<Rightarrow> string \<Rightarrow> update_data \<Rightarrow> db_error + (DatabaseManager \<times> nat)" where
  "update_one db rid u =
     (if \<not> server_up db then Inl ConnectionFailure
      else if \<not> encodable_update u then Inl InvalidDocument
      else (case update_first rid u (jobs_collection db) of
              (ds', modified_count) \<Rightarrow> Inr (db\<lparr>jobs_collection := ds'\<rparr>, modified_count)))"

text \<open>\<open>create_job\<close>; \<open>now\<close> is the reading of \<open>datetime.utcnow()\<close>.\<close>

definition create_job ::
  "DatabaseManager \<Rightarrow> string \<Rightarrow> (string \<times> json) list \<Rightarrow> int \<Rightarrow> bool \<times> DatabaseManager" where
  "create_job db rid pl now =
     (let job_doc = \<lparr>request_id = rid, payload = pl, status = PENDING, created_at = now,
                     updated_at = now, result = JNull, error = None\<rparr>
      in case insert_one db job_doc of
           Inr db' \<Rightarrow> (True, db')
         | Inl e \<Rightarrow> (False, db))"

text \<open>
  \<open>get_job\<close>. Building the response validates it: \<open>result\<close> is declared an optional
  dict, and a stored result of another kind raises inside the \<open>try\<close>, which yields
  \<open>None\<close>.
\<close>

definition get_job :: "DatabaseManager \<Rightarrow> string \<Rightarrow> JobStatusResponse option" where
  "get_job db rid =
     (case find_one db rid of
        Inl e \<Rightarrow> None
      | Inr None \<Rightarrow> None
      | Inr (Some job_doc) \<Rightarrow>
          (if result job_doc = JNull \<or> is_dict (result job_doc)
           then Some \<lparr>resp_status = status job_doc, resp_result = result job_doc,
                       resp_error = error job_doc, resp_created_at = created_at job_doc,
                       resp_updated_at = updated_at job_doc\<rparr>
           else None))"

text \<open>
  \<open>update_job_status\<close>: the \<open>$set\<close> document always holds \<open>status\<close> and \<open>updated_at\<close>,
  and holds \<open>result\<close> and \<open>error\<close> only when the argument is not \<open>None\<close>.
\<close>

definition update_job_status ::
  "DatabaseManager \<Rightarrow> string \<Rightarrow> JobStatus \<Rightarrow> json \<Rightarrow> string option \<Rightarrow> int
     \<Rightarrow> bool \<times> DatabaseManager" where
  "update_job_status db rid st res err now =
     (let update_data =
            \<lparr>set_status = st, set_updated_at = now,
             set_result = (if res \<noteq> JNull then Some res else None),
             set_error = (case err of None \<Rightarrow> None | Some e \<Rightarrow> Some e)\<rparr>
      in case update_one db rid update_data of
           Inr (db', modified_count) \<Rightarrow> (modified_count > 0, db')
         | Inl e \<Rightarrow> (False, db))"

text \<open>The document \<open>find_one\<close> would see, read off the collection directly.\<close>

definition lookup :: "DatabaseManager \<Rightarrow> string \<Rightarrow> job_doc option" where
  "lookup db rid = find (\<lambda>d. request_id d = rid) (jobs_collection db)"

section \<open>shared/queue.py\<close>

text \<open>
  An entry of the stream \<open>job_queue\<close>, with the fields \<open>enqueue_job\<close> writes. The payload
  field holds the JSON text of a value; the entry carries that value, so
  \<open>json.dumps\<close> on the way in and \<open>json.loads\<close> on the way out are the identity.
\<close>

record stream_entry =
  e_request_id :: string
  e_payload :: json
  e_vendor_type :: string
  e_timestamp :: string

text \<open>
  The stream and its consumer group \<open>worker_group\<close>. An entry's id is its position in
  the stream. \<open>last_delivered\<close> counts the entries the group has handed out, so it is the
  position of the next new entry; \<open>pending\<close> holds the ids handed out and not yet
  acknowledged. When the server does not answer, every client call raises.
\<close>

record QueueManager =
  stream :: "stream_entry list"
  last_delivered :: nat
  pending :: "nat list"
  redis_up :: bool

definition enqueue_job ::
  "QueueManager \<Rightarrow> string \<Rightarrow> (string \<times> json) list \<Rightarrow> string \<Rightarrow> string
     \<Rightarrow> bool \<times> QueueManager" where
  "enqueue_job q rid pl vendor_type ts =
     (let job_data = \<lparr>e_request_id = rid, e_payload = JDict pl,
                      e_vendor_type = vendor_type, e_timestamp = ts\<rparr>
      in if redis_up q then (True, q\<lparr>stream := stream q @ [job_data]\<rparr>)
         else (False, q))"

text \<open>
  \<open>xreadgroup\<close> with id \<open>>\<close> and \<open>count=1\<close>: the next entry never delivered to the
  group, which becomes pending, or nothing when the block time runs out.
\<close>

definition xreadgroup :: "QueueManager \<Rightarrow> (nat \<times> stream_entry) option \<times> QueueManager" where
  "xreadgroup q =
     (if last_delivered q < length (stream q)
      then (Some (last_delivered q, stream q ! last_delivered q),
            q\<lparr>last_delivered := Suc (last_delivered q),
              pending := pending q @ [last_delivered q]\<rparr>)
      else (None, q))"

definition xack :: "QueueManager \<Rightarrow> nat \<Rightarrow> QueueManager" where
  "xack q message_id = q\<lparr>pending := removeAll message_id (pending q)\<rparr>"

text \<open>
  \<open>dequeue_job\<close>. Building the \<open>VendorRequest\<close> validates that the payload is a dict;
  when it is not, the exception is caught after the read and before the acknowledge.
\<close>

definition dequeue_job :: "QueueManager \<Rightarrow> VendorRequest option \<times> QueueManager" where
  "dequeue_job q =
     (if \<not> redis_up q then (None, q)
      else (case xreadgroup q of
              (None, q1) \<Rightarrow> (None, q1)
            | (Some (message_id, data), q1) \<Rightarrow>
                (case e_payload data of
                   JDict pl \<Rightarrow>
                     (Some \<lparr>job_id = e_request_id data, req_payload = pl\<rparr>,
                      xack q1 message_id)
                 | other \<Rightarrow> (None, q1))))"

section \<open>worker/main.py\<close>

subsection \<open>RateLimiter\<close>

text \<open>Times are seconds, as exact numbers.\<close>

record RateLimiter =
  calls_per_second :: int
  last_call_time :: real
  min_interval :: real

datatype py_error = ZeroDivisionError

definition RateLimiter_init :: "int \<Rightarrow> py_error + RateLimiter" where
  "RateLimiter_init n =
     (if n = 0 then Inl ZeroDivisionError
      else Inr \<lparr>calls_per_second = n, last_call_time = 0, min_interval = 1 / of_int n\<rparr>)"

text \<open>
  \<open>wait_if_needed\<close>: \<open>current_time\<close> is the first reading of \<open>time.time()\<close> and
  \<open>wake_time\<close> the second, taken after the sleep if there was one. The result is the
  time slept, if any, and the limiter with the second reading stored.
\<close>

definition wait_if_needed :: "RateLimiter \<Rightarrow> real \<Rightarrow> real \<Rightarrow> real option \<times> RateLimiter" where
  "wait_if_needed rl current_time wake_time =
     (let time_since_last = current_time - last_call_time rl in
      if time_since_last < min_interval rl
      then (let sleep_time = min_interval rl - time_since_last
            in (Some sleep_time, rl\<lparr>last_call_time := wake_time\<rparr>))
      else (None, rl\<lparr>last_call_time := wake_time\<rparr>))"

text \<open>
  What the clock owes the limiter: \<open>time.sleep\<close> suspends for at least the time asked,
  and the clock does not run backwards between the two readings of one call.
\<close>

definition clock_ok :: "RateLimiter \<Rightarrow> real \<Rightarrow> real \<Rightarrow> bool" where
  "clock_ok rl current_time wake_time =
     (case fst (wait_if_needed rl current_time wake_time) of
        Some sleep_time \<Rightarrow> current_time + sleep_time \<le> wake_time
      | None \<Rightarrow> current_time \<le> wake_time)"

text \<open>
  A run of calls on one limiter, each given by its two clock readings: the times at which
  the calls were admitted, and whether the clock kept its promise at every call.
\<close>

fun admitted :: "RateLimiter \<Rightarrow> (real \<times> real) list \<Rightarrow> real list" where
  "admitted rl [] = []"
| "admitted rl ((current_time, wake_time) # calls) =
     wake_time # admitted (snd (wait_if_needed rl current_time wake_time)) calls"

fun clocks_ok :: "RateLimiter \<Rightarrow> (real \<times> real) list \<Rightarrow> bool" where
  "clocks_ok rl [] = True"
| "clocks_ok rl ((current_time, wake_time) # calls) =
     (clock_ok rl current_time wake_time \<and>
      clocks_ok (snd (wait_if_needed rl current_time wake_time)) calls)"

fun gaps_at_least :: "real \<Rightarrow> real list \<Rightarrow> bool" where
  "gaps_at_least g (a # b # ts) = (g \<le> b - a \<and> gaps_at_least g (b # ts))"
| "gaps_at_least g ts = True"

subsection \<open>VendorClient\<close>

text \<open>
  What one HTTP POST to a vendor comes to: an exception of the client (connection
  refused, timeout), or a response with its status code and its body as JSON, \<open>None\<close>
  when the body is not JSON and \<open>response.json()\<close> raises.
\<close>

datatype http_outcome = TransportError | HttpResponse int "json option"

text \<open>
  \<open>call_sync_vendor\<close> and \<open>call_async_vendor\<close>, as functions of the outcome of the POST.
  Both first wait on their channel's rate limiter, which delays the call and has no
  part in its result; the limiter is the subject of the section above.
\<close>

definition call_sync_vendor :: "http_outcome \<Rightarrow> json" where
  "call_sync_vendor outcome =
     (case outcome of
        TransportError \<Rightarrow> JNull
      | HttpResponse status_code body \<Rightarrow>
          (if status_code = 200
           then (case body of Some v \<Rightarrow> v | None \<Rightarrow> JNull)
           else JNull))"

definition call_async_vendor :: "http_outcome \<Rightarrow> bool" where
  "call_async_vendor outcome =
     (case outcome of
        TransportError \<Rightarrow> False
      | HttpResponse status_code body \<Rightarrow> status_code = 200)"

subsection \<open>Worker\<close>

text \<open>
  What a run of \<open>process_job\<close> takes from outside: the interpreter's string hash, the two
  vendors' answers to a request, and the clock readings of its first and its last
  update of the store.
\<close>

record world =
  py_hash :: "string \<Rightarrow> int"
  sync_vendor :: "VendorRequest \<Rightarrow> http_outcome"
  async_vendor :: "VendorRequest \<Rightarrow> http_outcome"
  now1 :: int
  now2 :: int

definition select_vendor_type :: "world \<Rightarrow> VendorRequest \<Rightarrow> string" where
  "select_vendor_type w vendor_request =
     (if py_hash w (job_id vendor_request) mod 2 = 0 then ''sync'' else ''async'')"

text \<open>
  \<open>process_job\<close>. The only statement of the \<open>try\<close> block that can raise is
  \<open>result.get\<close>, on a response body that is not a dict; the handler then records the
  exception's text.
\<close>

definition process_job :: "world \<Rightarrow> DatabaseManager \<Rightarrow> VendorRequest \<Rightarrow> DatabaseManager" where
  "process_job w db vendor_request =
     (let db1 = snd (update_job_status db (job_id vendor_request) PROCESSING JNull None (now1 w));
          vendor_type = select_vendor_type w vendor_request
      in if vendor_type = ''sync''
         then (let result = call_sync_vendor (sync_vendor w vendor_request)
               in if truthy result
                  then (case py_get result ''data'' (JDict []) of
                          Inr data \<Rightarrow>
                            (let cleaned_result = clean_vendor_data data
                             in snd (update_job_status db1 (job_id vendor_request) COMPLETE
                                       cleaned_result None (now2 w)))
                        | Inl e \<Rightarrow>
                            snd (update_job_status db1 (job_id vendor_request) FAILED
                                   JNull (Some e) (now2 w)))
                  else snd (update_job_status db1 (job_id vendor_request) FAILED
                              JNull (Some ''Sync vendor call failed'') (now2 w)))
         else (let success = call_async_vendor (async_vendor w vendor_request)
               in if success then db1
                  else snd (update_job_status db1 (job_id vendor_request) FAILED
                              JNull (Some ''Async vendor call failed'') (now2 w))))"


section \<open>api/main.py\<close>

datatype http_result = Success | HTTPException int string

definition vendor_webhook ::
  "DatabaseManager \<Rightarrow> string \<Rightarrow> WebhookRequest \<Rightarrow> int \<Rightarrow> http_result \<times> DatabaseManager" where
  "vendor_webhook db vendor webhook_request now =
     (case update_job_status db (wh_job_id webhook_request) COMPLETE
             (JDict (wh_data webhook_request)) None now of
        (False, db') \<Rightarrow> (HTTPException 404 ''Job not found'', db')
      | (True, db') \<Rightarrow> (Success, db'))"

section \<open>Runs of the system and the properties stated of it\<close>

definition empty_db :: DatabaseManager where
  "empty_db = \<lparr>jobs_collection = [], server_up = True\<rparr>"

definition empty_queue :: QueueManager where
  "empty_queue = \<lparr>stream = [], last_delivered = 0, pending = [], redis_up = True\<rparr>"

text \<open>
  What happens to the store: intake creates a job, the Dispatcher runs \<open>process_job\<close>
  on a dequeued request, a vendor (or anyone else) calls the webhook endpoint.
  \<open>event_job\<close> is the job an event addresses, and \<open>run\<close> applies events in order; the
  stores \<open>run es empty_db\<close> are the reachable ones.
\<close>

datatype event =
    Intake string "(string \<times> json) list" int
  | Dispatch world VendorRequest
  | Webhook string WebhookRequest int

fun apply_event :: "event \<Rightarrow> DatabaseManager \<Rightarrow> DatabaseManager" where
  "apply_event (Intake rid pl now) db = snd (create_job db rid pl now)"
| "apply_event (Dispatch w vendor_request) db = process_job w db vendor_request"
| "apply_event (Webhook vendor webhook_request now) db =
     snd (vendor_webhook db vendor webhook_request now)"

fun event_job :: "event \<Rightarrow> string" where
  "event_job (Intake rid pl now) = rid"
| "event_job (Dispatch w vendor_request) = job_id vendor_request"
| "event_job (Webhook vendor webhook_request now) = wh_job_id webhook_request"

fun run :: "event list \<Rightarrow> DatabaseManager \<Rightarrow> DatabaseManager" where
  "run [] db = db"
| "run (e # es) db = run es (apply_event e db)"

definition status_of :: "DatabaseManager \<Rightarrow> string \<Rightarrow> JobStatus option" where
  "status_of db rid = map_option status (lookup db rid)"

text \<open>The limiter after a run of calls.\<close>

fun limiter_after :: "RateLimiter \<Rightarrow> (real \<times> real) list \<Rightarrow> RateLimiter" where
  "limiter_after rl [] = rl"
| "limiter_after rl ((current_time, wake_time) # calls) =
     limiter_after (snd (wait_if_needed rl current_time wake_time)) calls"

text \<open>The queue after \<open>n\<close> further calls of \<open>dequeue_job\<close>.\<close>

fun dequeues :: "nat \<Rightarrow> QueueManager \<Rightarrow> QueueManager" where
  "dequeues 0 q = q"
| "dequeues (Suc n) q = dequeues n (snd (dequeue_job q))"







definition job1_pending :: job_doc where
  "job1_pending = \<lparr>request_id = ''job-1'', payload = [(''x'', JInt 1)],
     status = PENDING, created_at = 10, updated_at = 10, result = JNull, error = None\<rparr>"

definition db_job1 :: DatabaseManager where
  "db_job1 = \<lparr>jobs_collection = [job1_pending], server_up = True\<rparr>"

definition req1 :: VendorRequest where
  "req1 = \<lparr>job_id = ''job-1'', req_payload = [(''x'', JInt 1)]\<rparr>"

definition w_sync_500 :: world where
  "w_sync_500 = \<lparr>py_hash = (\<lambda>s. 42), sync_vendor = (\<lambda>r. HttpResponse 500 None),
     async_vendor = (\<lambda>r. TransportError), now1 = 11, now2 = 12\<rparr>"

definition vendor_data :: json where
  "vendor_data = JDict
     [(''email'', JStr '' a@b.com ''),
      (''phone'', JInt 5551234567),
      (''names'', JList [JStr ''  John Doe  ''])]"


definition w_sync_200 :: world where
  "w_sync_200 = \<lparr>py_hash = (\<lambda>s. 42),
     sync_vendor = (\<lambda>r. HttpResponse 200
        (Some (JDict [(''success'', JBool True), (''data'', vendor_data)]))),
     async_vendor = (\<lambda>r. TransportError), now1 = 11, now2 = 12\<rparr>"

text \<open>
  Further examples: a callback for the first job and a request for a second; queues
  holding the first job with the selector \<open>sync\<close>, with the selector \<open>async\<close>, and
  followed by the second job; a world in which the hash of every job id is odd; and
  the synchronous channel's limiter, five calls per second, with a run of three calls
  given by their two clock readings each.
\<close>

definition webhook1 :: WebhookRequest where
  "webhook1 = \<lparr>wh_job_id = ''job-1'', wh_data = [(''r'', JInt 1)]\<rparr>"

definition req2 :: VendorRequest where
  "req2 = \<lparr>job_id = ''job-2'', req_payload = []\<rparr>"

definition q_sync :: QueueManager where
  "q_sync = snd (enqueue_job empty_queue ''job-1'' [(''x'', JInt 1)] ''sync'' ''1700000000.0'')"


definition q_two :: QueueManager where
  "q_two = snd (enqueue_job q_sync ''job-2'' [] ''async'' ''1700000001.5'')"


definition rl5 :: RateLimiter where
  "rl5 = \<lparr>calls_per_second = 5, last_call_time = 0, min_interval = 1 / 5\<rparr>"

definition calls5 :: "(real \<times> real) list" where
  "calls5 = [(1000, 1000), (20001 / 20, 5001 / 5), (100021 / 100, 5002 / 5)]"

section \<open>Strings\<close>

lemma dropWhile_fixed: "xs = [] \<or> \<not> P (hd xs) \<Longrightarrow> dropWhile P xs = xs"
  by (cases xs) auto

lemma strip_edges:
  "strip s = [] \<or> (\<not> isspace (hd (strip s)) \<and> \<not> isspace (last (strip s)))"
proof (cases "strip s = []")
  case True
  then show ?thesis by simp
next
  case False
  define t where "t = dropWhile isspace s"
  define u where "u = dropWhile isspace (rev t)"
  have su: "strip s = rev u" by (simp add: strip_def t_def u_def)
  with False have une: "u \<noteq> []" by simp
  have parts: "rev t = takeWhile isspace (rev t) @ u" by (simp add: u_def)
  have "\<not> isspace (hd u)" using une unfolding u_def by (rule hd_dropWhile)
  then have l: "\<not> isspace (last (strip s))" using une by (simp add: su last_rev)
  have "last (rev t) = last u" using une parts by (metis last_appendR)
  moreover have tne: "t \<noteq> []" using une u_def by auto
  ultimately have "hd t = last u" by (simp add: last_rev)
  moreover have "\<not> isspace (hd t)" using tne unfolding t_def by (rule hd_dropWhile)
  ultimately have "\<not> isspace (hd (strip s))" using une by (simp add: su hd_rev)
  with l show ?thesis by simp
qed

lemma strip_fixed:
  assumes "s = [] \<or> (\<not> isspace (hd s) \<and> \<not> isspace (last s))"
  shows "strip s = s"
proof -
  have a: "dropWhile isspace s = s" using assms by (intro dropWhile_fixed) auto
  have "rev s = [] \<or> \<not> isspace (hd (rev s))" using assms by (auto simp: hd_rev)
  then have "dropWhile isspace (rev s) = rev s" by (rule dropWhile_fixed)
  with a show ?thesis by (simp add: strip_def)
qed

lemma strip_strip: "strip (strip s) = strip s"
  using strip_edges [of s] by (intro strip_fixed) auto

lemma strip_redacted: "strip ''[REDACTED]'' = ''[REDACTED]''"
  by (simp add: strip_def isspace_def)

section \<open>The sanitization step\<close>

lemma is_dict_clean: "is_dict (clean_vendor_data v) = is_dict v"
  by (cases v) simp_all

text \<open>
  C10. The sanitization step is idempotent: cleaning a cleaned value changes nothing (for
  a mapping and for any other value alike); and a value that is not a mapping (null, a
  boolean, a number, a string, a sequence) is returned unchanged.
\<close>

theorem clean_vendor_data_idempotent:
  "clean_vendor_data (clean_vendor_data x) = clean_vendor_data x \<and>
   clean_vendor_data JNull = JNull \<and>
   clean_vendor_data (JBool b) = JBool b \<and>
   clean_vendor_data (JInt i) = JInt i \<and>
   clean_vendor_data (JFloat m e) = JFloat m e \<and>
   clean_vendor_data (JStr s) = JStr s \<and>
   clean_vendor_data (JList xs) = JList xs"
proof -
  have "clean_vendor_data (clean_vendor_data x) = clean_vendor_data x"
  proof (induction x rule: clean_vendor_data.induct)
    case (1 items)
    show ?case
      apply (simp add: comp_def case_prod_beta)
      apply (intro ballI)
      subgoal for kv
        apply (cases kv)
        subgoal for k v
          using 1 by (cases v) (auto simp: strip_strip strip_redacted is_dict_clean)
        done
      done
  qed simp_all
  then show ?thesis by simp
qed

section \<open>The job store\<close>

lemma request_id_apply_set: "request_id (apply_set u d) = request_id d"
  by (simp add: apply_set_def)

lemma update_first_map:
  assumes "\<And>d. f (apply_set u d) = f d"
  shows "map f (fst (update_first rid u ds)) = map f ds"
  by (induction ds) (auto simp: assms split: prod.splits)

lemma find_update_first:
  "find (\<lambda>d. request_id d = r) (fst (update_first rid u ds)) =
     (if r = rid then map_option (apply_set u) (find (\<lambda>d. request_id d = rid) ds)
      else find (\<lambda>d. request_id d = r) ds)"
  by (induction ds) (auto simp: request_id_apply_set split: prod.splits)


lemma jobs_update_job_status:
  "jobs_collection (snd (update_job_status db rid st res err now)) =
     (if server_up db \<and> bson_encodable res
      then fst (update_first rid
             \<lparr>set_status = st, set_updated_at = now,
              set_result = (if res \<noteq> JNull then Some res else None), set_error = err\<rparr>
             (jobs_collection db))
      else jobs_collection db)"
  by (cases err)
    (simp_all add: update_job_status_def update_one_def encodable_update_def Let_def
       split: prod.splits)

lemma server_up_update_job_status:
  "server_up (snd (update_job_status db rid st res err now)) = server_up db"
  by (simp add: update_job_status_def update_one_def Let_def split: prod.splits)

lemma lookup_update_job_status:
  "lookup (snd (update_job_status db rid st res err now)) r =
     (if server_up db \<and> bson_encodable res \<and> r = rid
      then map_option (apply_set \<lparr>set_status = st, set_updated_at = now,
              set_result = (if res \<noteq> JNull then Some res else None), set_error = err\<rparr>)
             (lookup db rid)
      else lookup db r)"
  by (simp add: lookup_def jobs_update_job_status find_update_first)

text \<open>
  C6. A call of \<open>update_job_status\<close> that supplies a status and neither a result nor an
  error leaves the result and the error of every stored job as they were (and the
  request id, the payload and the creation time too); on the job addressed it writes
  the status and \<open>updated_at\<close> and nothing else.
\<close>

theorem update_job_status_status_only:
  "map result (jobs_collection (snd (update_job_status db rid st JNull None now)))
     = map result (jobs_collection db) \<and>
   map error (jobs_collection (snd (update_job_status db rid st JNull None now)))
     = map error (jobs_collection db) \<and>
   map request_id (jobs_collection (snd (update_job_status db rid st JNull None now)))
     = map request_id (jobs_collection db) \<and>
   map payload (jobs_collection (snd (update_job_status db rid st JNull None now)))
     = map payload (jobs_collection db) \<and>
   map created_at (jobs_collection (snd (update_job_status db rid st JNull None now)))
     = map created_at (jobs_collection db) \<and>
   lookup (snd (update_job_status db rid st JNull None now)) rid
     = (if server_up db
        then map_option (\<lambda>d. d\<lparr>status := st, updated_at := now\<rparr>) (lookup db rid)
        else lookup db rid)"
proof -
  let ?u = "\<lparr>set_status = st, set_updated_at = now, set_result = None, set_error = None\<rparr>"
  have a: "apply_set ?u = (\<lambda>d. d\<lparr>status := st, updated_at := now\<rparr>)"
    by (rule ext) (simp add: apply_set_def)
  have f: "map result (fst (update_first rid ?u ds)) = map result ds"
          "map error (fst (update_first rid ?u ds)) = map error ds"
          "map request_id (fst (update_first rid ?u ds)) = map request_id ds"
          "map payload (fst (update_first rid ?u ds)) = map payload ds"
          "map created_at (fst (update_first rid ?u ds)) = map created_at ds" for ds
    by (rule update_first_map, simp add: apply_set_def)+
  show ?thesis
    by (simp add: jobs_update_job_status lookup_update_job_status f a)
qed

text \<open>
  C9. \<open>create_job\<close> with a job id that is already in the store returns failure and
  leaves the store, and so the existing record, unchanged; in particular a second
  \<open>create_job\<close> with the id of a first, successful one fails. \<open>get_job\<close> with a job id that
  is not in the store returns not-found.
\<close>

theorem create_job_twice_get_job_unknown:
  "(list_ex (\<lambda>d. request_id d = rid) (jobs_collection db)
      \<longrightarrow> create_job db rid pl now = (False, db)) \<and>
   (create_job db rid pl now = (True, db1)
      \<longrightarrow> create_job db1 rid pl' now' = (False, db1)) \<and>
   (lookup db rid = None \<longrightarrow> get_job db rid = None)"
proof (intro conjI impI)
  assume "list_ex (\<lambda>d. request_id d = rid) (jobs_collection db)"
  then show "create_job db rid pl now = (False, db)"
    by (simp add: create_job_def insert_one_def Let_def)
next
  assume "create_job db rid pl now = (True, db1)"
  then have "list_ex (\<lambda>d. request_id d = rid) (jobs_collection db1)" and "server_up db1"
    by (auto simp: create_job_def insert_one_def list_ex_iff Let_def split: if_splits)
  then show "create_job db1 rid pl' now' = (False, db1)"
    by (simp add: create_job_def insert_one_def Let_def)
next
  assume "lookup db rid = None"
  then show "get_job db rid = None"
    by (simp add: get_job_def find_one_def lookup_def)
qed

theorem create_job_twice_get_job_unknown_witness:
  "create_job empty_db ''job-1'' [(''x'', JInt 1)] 10 =
     (True, \<lparr>jobs_collection = [\<lparr>request_id = ''job-1'', payload = [(''x'', JInt 1)],
        status = PENDING, created_at = 10, updated_at = 10, result = JNull, error = None\<rparr>],
        server_up = True\<rparr>) \<and>
   list_ex (\<lambda>d. request_id d = ''job-1'')
     (jobs_collection (snd (create_job empty_db ''job-1'' [(''x'', JInt 1)] 10))) \<and>
   create_job (snd (create_job empty_db ''job-1'' [(''x'', JInt 1)] 10))
       ''job-1'' [(''y'', JInt 2)] 20 =
     (False, snd (create_job empty_db ''job-1'' [(''x'', JInt 1)] 10)) \<and>
   lookup empty_db ''job-2'' = None \<and> get_job empty_db ''job-2'' = None"
  using create_job_twice_get_job_unknown
    [of "''job-1''" "snd (create_job empty_db ''job-1'' [(''x'', JInt 1)] 10)"
        "[(''y'', JInt 2)]" 20
        "snd (create_job empty_db ''job-1'' [(''x'', JInt 1)] 10)" "[(''y'', JInt 2)]" 20]
    create_job_twice_get_job_unknown [of "''job-2''" empty_db "[]" 0 empty_db "[]" 0]
  by (simp add: create_job_def insert_one_def empty_db_def lookup_def Let_def)


section \<open>The Dispatcher\<close>

lemma lookup_process_job_other:
  "r \<noteq> job_id req \<Longrightarrow> lookup (process_job w db req) r = lookup db r"
  by (simp add: process_job_def Let_def lookup_update_job_status split: sum.splits)

lemma server_up_process_job: "server_up (process_job w db req) = server_up db"
  by (simp add: process_job_def Let_def server_up_update_job_status split: sum.splits)

lemma process_job_sync_failure:
  assumes "server_up db" and "lookup db (job_id req) = Some d"
    and "select_vendor_type w req = ''sync''"
    and "\<not> truthy (call_sync_vendor (sync_vendor w req))"
  shows "lookup (process_job w db req) (job_id req) =
           Some (d\<lparr>status := FAILED, updated_at := now2 w,
                   error := Some ''Sync vendor call failed''\<rparr>)"
  using assms
  by (simp add: process_job_def Let_def lookup_update_job_status
        server_up_update_job_status apply_set_def)







section \<open>The example run\<close>

lemma db_job1_facts:
  "server_up db_job1" "lookup db_job1 (job_id req1) = Some job1_pending"
  "lookup db_job1 ''job-1'' = Some job1_pending" "job_id req1 = ''job-1''"
  by (simp_all add: db_job1_def lookup_def req1_def job1_pending_def)

lemma w_sync_500_facts:
  "select_vendor_type w_sync_500 req1 = ''sync''"
  "sync_vendor w_sync_500 req1 = HttpResponse 500 None"
  "now2 w_sync_500 = 12"
  by (simp_all add: select_vendor_type_def w_sync_500_def)







section \<open>Synchronous dispatch\<close>




text \<open>
  C8. For a job that is in the store and is dispatched to the synchronous vendor, when
  the vendor's call fails at the transport level or returns a status other than 200,
  the job's final status is failed and its error is the non-empty text
  \<open>Sync vendor call failed\<close> (the store answering).
\<close>

theorem sync_vendor_failure_marks_failed:
  assumes "server_up db" and "lookup db (job_id req) = Some d"
    and "select_vendor_type w req = ''sync''"
    and "sync_vendor w req = TransportError \<or>
         (\<exists>code body. sync_vendor w req = HttpResponse code body \<and> code \<noteq> 200)"
  shows "lookup (process_job w db req) (job_id req) =
           Some (d\<lparr>status := FAILED, updated_at := now2 w,
                   error := Some ''Sync vendor call failed''\<rparr>) \<and>
         ''Sync vendor call failed'' \<noteq> ''''"
proof -
  from assms(4) have "\<not> truthy (call_sync_vendor (sync_vendor w req))"
    by (auto simp: call_sync_vendor_def)
  from process_job_sync_failure [OF assms(1-3) this] show ?thesis by simp
qed

theorem sync_vendor_failure_marks_failed_witness:
  "server_up db_job1 \<and> lookup db_job1 (job_id req1) = Some job1_pending \<and>
   select_vendor_type w_sync_500 req1 = ''sync'' \<and>
   sync_vendor w_sync_500 req1 = HttpResponse 500 None \<and>
   lookup (process_job w_sync_500 db_job1 req1) ''job-1'' =
     Some \<lparr>request_id = ''job-1'', payload = [(''x'', JInt 1)],
       status = FAILED, created_at = 10, updated_at = 12, result = JNull,
       error = Some ''Sync vendor call failed''\<rparr>"
proof -
  have "sync_vendor w_sync_500 req1 = TransportError \<or>
         (\<exists>code body. sync_vendor w_sync_500 req1 = HttpResponse code body \<and> code \<noteq> 200)"
    by (simp add: w_sync_500_facts)
  from sync_vendor_failure_marks_failed
    [OF db_job1_facts(1) db_job1_facts(2) w_sync_500_facts(1) this]
  have "lookup (process_job w_sync_500 db_job1 req1) ''job-1'' =
     Some (job1_pending\<lparr>status := FAILED, updated_at := 12,
                   error := Some ''Sync vendor call failed''\<rparr>)"
    by (simp add: db_job1_facts(4) w_sync_500_facts(3))
  then show ?thesis
    by (simp add: db_job1_facts w_sync_500_facts job1_pending_def)
qed

section \<open>The webhook completion handler\<close>




section \<open>Terminal states\<close>

lemma find_snoc:
  "find P (xs @ [y]) =
     (case find P xs of Some x \<Rightarrow> Some x | None \<Rightarrow> if P y then Some y else None)"
  by (induction xs) simp_all

lemma lookup_create_job_other:
  "r \<noteq> rid \<Longrightarrow> lookup (snd (create_job db rid pl now)) r = lookup db r"
  by (simp add: create_job_def insert_one_def lookup_def Let_def find_snoc split: option.splits)

lemma snd_vendor_webhook:
  "snd (vendor_webhook db vendor r now) =
     snd (update_job_status db (wh_job_id r) COMPLETE (JDict (wh_data r)) None now)"
  by (simp add: vendor_webhook_def split: prod.splits bool.splits)

lemma status_of_apply_event_other:
  "event_job e \<noteq> rid \<Longrightarrow> status_of (apply_event e db) rid = status_of db rid"
  by (cases e)
    (auto simp: status_of_def lookup_create_job_other lookup_process_job_other
       snd_vendor_webhook lookup_update_job_status)

lemma status_of_run_other:
  "list_all (\<lambda>e. event_job e \<noteq> rid) es \<Longrightarrow> status_of (run es db) rid = status_of db rid"
  by (induction es arbitrary: db) (simp_all add: status_of_apply_event_other)

lemma status_of_webhook_complete:
  "status_of db rid = Some COMPLETE \<Longrightarrow>
     status_of (apply_event (Webhook vendor r now) db) rid = Some COMPLETE"
  by (auto simp: status_of_def snd_vendor_webhook lookup_update_job_status apply_set_def)

lemma run_failed_example:
  "status_of (run [Intake ''job-1'' [(''x'', JInt 1)] 10, Dispatch w_sync_500 req1] empty_db)
     ''job-1'' = Some FAILED"
proof -
  have "apply_event (Intake ''job-1'' [(''x'', JInt 1)] 10) empty_db = db_job1"
    by (simp add: create_job_def insert_one_def empty_db_def db_job1_def job1_pending_def Let_def)
  moreover have "\<not> truthy (call_sync_vendor (sync_vendor w_sync_500 req1))"
    by (simp add: w_sync_500_facts call_sync_vendor_def)
  note process_job_sync_failure
    [OF db_job1_facts(1) db_job1_facts(2) w_sync_500_facts(1) this]
  ultimately show ?thesis
    by (simp add: status_of_def db_job1_facts(4))
qed

text \<open>
  C2, as the code has it. No update of the store looks at the status it overwrites, so
  what holds of a job in a terminal state is this: intake, Dispatcher runs and webhook
  calls that address other jobs leave its status as it is, over any run of them; and a
  webhook call, for whichever job, leaves a complete job complete.
\<close>

theorem terminal_status_kept:
  "(list_all (\<lambda>e. event_job e \<noteq> rid) es \<longrightarrow>
      status_of (run es db) rid = status_of db rid) \<and>
   (status_of db rid = Some COMPLETE \<longrightarrow>
      status_of (apply_event (Webhook vendor r now) db) rid = Some COMPLETE)"
  using status_of_run_other status_of_webhook_complete by blast

theorem terminal_status_kept_witness:
  "list_all (\<lambda>e. event_job e \<noteq> ''job-1'') [Dispatch w_sync_200 req2,
       Webhook ''async'' \<lparr>wh_job_id = ''job-2'', wh_data = []\<rparr> 40] \<and>
   status_of (run [Dispatch w_sync_200 req2,
       Webhook ''async'' \<lparr>wh_job_id = ''job-2'', wh_data = []\<rparr> 40]
     (run [Intake ''job-1'' [(''x'', JInt 1)] 10, Dispatch w_sync_500 req1] empty_db)) ''job-1''
     = Some FAILED \<and>
   status_of (run [Intake ''job-1'' [(''x'', JInt 1)] 10, Dispatch w_sync_500 req1,
                   Webhook ''async'' webhook1 30] empty_db) ''job-1'' = Some COMPLETE \<and>
   status_of (apply_event (Webhook ''async'' webhook1 50)
      (run [Intake ''job-1'' [(''x'', JInt 1)] 10, Dispatch w_sync_500 req1,
                   Webhook ''async'' webhook1 30] empty_db)) ''job-1'' = Some COMPLETE"
proof -
  let ?es = "[Dispatch w_sync_200 req2, Webhook ''async'' \<lparr>wh_job_id = ''job-2'', wh_data = []\<rparr> 40]"
  let ?db = "run [Intake ''job-1'' [(''x'', JInt 1)] 10, Dispatch w_sync_500 req1] empty_db"
  let ?db' = "run [Intake ''job-1'' [(''x'', JInt 1)] 10, Dispatch w_sync_500 req1,
                   Webhook ''async'' webhook1 30] empty_db"
  have a: "list_all (\<lambda>e. event_job e \<noteq> ''job-1'') ?es" by (simp add: req2_def)
  have c: "status_of ?db' ''job-1'' = Some COMPLETE"
  proof -
    have up: "server_up ?db"
      by (simp add: server_up_process_job create_job_def insert_one_def empty_db_def Let_def)
    have "?db' = apply_event (Webhook ''async'' webhook1 30) ?db" by simp
    moreover have "status_of (apply_event (Webhook ''async'' webhook1 30) ?db) ''job-1'' =
                   Some COMPLETE"
      using run_failed_example up
      by (auto simp add: status_of_def snd_vendor_webhook lookup_update_job_status
          apply_set_def webhook1_def simp del: run.simps)
    ultimately show ?thesis by simp
  qed
  from terminal_status_kept [where rid = "''job-1''" and es = ?es and db = ?db]
    terminal_status_kept [where rid = "''job-1''" and es = "[]" and db = ?db'
      and vendor = "''async''" and r = webhook1 and now = 50] a c
  have "status_of (run ?es ?db) ''job-1'' = status_of ?db ''job-1''"
    and "status_of (apply_event (Webhook ''async'' webhook1 50) ?db') ''job-1'' = Some COMPLETE"
    by blast+
  with a c run_failed_example show ?thesis by (simp del: run.simps apply_event.simps)
qed

text \<open>
  C2 as stated fails in a reachable store: the job is created, the Dispatcher runs it
  against a synchronous vendor that answers 500, and it is failed; a webhook call for
  it then makes it complete.
\<close>

theorem terminal_status_counterexample:
  "status_of (run [Intake ''job-1'' [(''x'', JInt 1)] 10, Dispatch w_sync_500 req1] empty_db)
     ''job-1'' = Some FAILED \<and>
   status_of (run [Intake ''job-1'' [(''x'', JInt 1)] 10, Dispatch w_sync_500 req1,
                   Webhook ''async'' webhook1 30] empty_db)
     ''job-1'' = Some COMPLETE"
proof -
  let ?db = "run [Intake ''job-1'' [(''x'', JInt 1)] 10, Dispatch w_sync_500 req1] empty_db"
  have up: "server_up ?db"
    by (simp add: server_up_process_job create_job_def insert_one_def empty_db_def Let_def)
  have "run [Intake ''job-1'' [(''x'', JInt 1)] 10, Dispatch w_sync_500 req1,
             Webhook ''async'' webhook1 30] empty_db =
        apply_event (Webhook ''async'' webhook1 30) ?db"
    by simp
  moreover have "status_of (apply_event (Webhook ''async'' webhook1 30) ?db) ''job-1'' =
                   Some COMPLETE"
    using run_failed_example up
    by (auto simp add: status_of_def snd_vendor_webhook lookup_update_job_status
        apply_set_def webhook1_def simp del: run.simps)
  ultimately show ?thesis using run_failed_example by simp
qed

section \<open>The work queue\<close>

lemma dequeue_job_Some:
  assumes "dequeue_job q = (Some r, q')"
  shows "redis_up q" and "last_delivered q < length (stream q)"
    and "e_payload (stream q ! last_delivered q) = JDict (req_payload r)"
    and "job_id r = e_request_id (stream q ! last_delivered q)"
    and "q' = q\<lparr>last_delivered := Suc (last_delivered q),
                pending := removeAll (last_delivered q) (pending q @ [last_delivered q])\<rparr>"
  using assms
  by (auto simp: dequeue_job_def xreadgroup_def xack_def split: if_splits json.splits)

lemma stream_dequeue_job: "stream (snd (dequeue_job q)) = stream q"
  by (simp add: dequeue_job_def xreadgroup_def xack_def split: json.splits)

lemma last_delivered_dequeue_job: "last_delivered q \<le> last_delivered (snd (dequeue_job q))"
  by (simp add: dequeue_job_def xreadgroup_def xack_def split: json.splits)

lemma last_delivered_dequeues: "last_delivered q \<le> last_delivered (dequeues n q)"
proof (induction n arbitrary: q)
  case 0
  show ?case by simp
next
  case (Suc n)
  have "last_delivered q \<le> last_delivered (snd (dequeue_job q))"
    by (rule last_delivered_dequeue_job)
  also have "\<dots> \<le> last_delivered (dequeues n (snd (dequeue_job q)))"
    by (rule Suc.IH)
  finally show ?case by simp
qed

lemma q_sync_eq:
  "q_sync = \<lparr>stream = [\<lparr>e_request_id = ''job-1'', e_payload = JDict [(''x'', JInt 1)],
                e_vendor_type = ''sync'', e_timestamp = ''1700000000.0''\<rparr>],
             last_delivered = 0, pending = [], redis_up = True\<rparr>"
  by (simp add: q_sync_def enqueue_job_def empty_queue_def Let_def)


lemma dequeue_q_sync:
  "dequeue_job q_sync = (Some req1, q_sync\<lparr>last_delivered := 1\<rparr>)"
  by (simp add: q_sync_eq dequeue_job_def xreadgroup_def xack_def req1_def)


lemma dequeue_q_sync_again:
  "dequeue_job (q_sync\<lparr>last_delivered := 1\<rparr>) = (None, q_sync\<lparr>last_delivered := 1\<rparr>)"
  by (simp add: q_sync_eq dequeue_job_def xreadgroup_def)

lemma q_two_eq:
  "q_two = \<lparr>stream = [\<lparr>e_request_id = ''job-1'', e_payload = JDict [(''x'', JInt 1)],
                e_vendor_type = ''sync'', e_timestamp = ''1700000000.0''\<rparr>,
                      \<lparr>e_request_id = ''job-2'', e_payload = JDict [],
                e_vendor_type = ''async'', e_timestamp = ''1700000001.5''\<rparr>],
             last_delivered = 0, pending = [], redis_up = True\<rparr>"
  by (simp add: q_two_def q_sync_eq enqueue_job_def Let_def)

lemma dequeue_q_two:
  "dequeue_job q_two = (Some req1, q_two\<lparr>last_delivered := 1\<rparr>)"
  "dequeue_job (q_two\<lparr>last_delivered := 1\<rparr>) = (Some req2, q_two\<lparr>last_delivered := 2\<rparr>)"
  by (simp_all add: q_two_eq dequeue_job_def xreadgroup_def xack_def req1_def req2_def)

text \<open>
  C3, as the code has it. \<open>dequeue_job\<close> acknowledges the entry itself, after parsing it
  and before returning the job: whenever it returns a job, that job is the one of the
  next undelivered entry, the entry is no longer in the pending set, and the group's
  position has moved past it, so that every later \<open>dequeue_job\<close> that returns a job
  returns the job of a later entry. An entry handed to a consumer is thus never
  delivered again, whether or not the consumer finishes processing it.
\<close>

theorem dequeue_acknowledges_before_return:
  "(dequeue_job q = (Some r, q') \<longrightarrow>
      last_delivered q < length (stream q) \<and>
      job_id r = e_request_id (stream q ! last_delivered q) \<and>
      last_delivered q \<notin> set (pending q') \<and>
      last_delivered q' = Suc (last_delivered q) \<and>
      (dequeue_job (dequeues n q') = (Some r2, q2) \<longrightarrow>
         last_delivered q < last_delivered (dequeues n q') \<and>
         job_id r2 = e_request_id (stream q ! last_delivered (dequeues n q'))))"
proof (intro impI)
  assume a: "dequeue_job q = (Some r, q')"
  note f = dequeue_job_Some [OF a]
  have s: "stream (dequeues m p) = stream p" for m p
    by (induction m arbitrary: p) (simp_all add: stream_dequeue_job)
  have q': "stream q' = stream q" "last_delivered q' = Suc (last_delivered q)"
    "last_delivered q \<notin> set (pending q')"
    by (simp_all add: f(5))
  have later: "last_delivered q < last_delivered (dequeues n q') \<and>
         job_id r2 = e_request_id (stream q ! last_delivered (dequeues n q'))"
    if b: "dequeue_job (dequeues n q') = (Some r2, q2)"
  proof -
    have "last_delivered q' \<le> last_delivered (dequeues n q')"
      by (rule last_delivered_dequeues)
    with q'(2) have "last_delivered q < last_delivered (dequeues n q')" by simp
    moreover have "job_id r2 = e_request_id (stream q ! last_delivered (dequeues n q'))"
      using dequeue_job_Some(4) [OF b] by (simp add: s q'(1))
    ultimately show ?thesis by simp
  qed
  from f(2) f(4) q' later
  show "last_delivered q < length (stream q) \<and>
      job_id r = e_request_id (stream q ! last_delivered q) \<and>
      last_delivered q \<notin> set (pending q') \<and>
      last_delivered q' = Suc (last_delivered q) \<and>
      (dequeue_job (dequeues n q') = (Some r2, q2) \<longrightarrow>
         last_delivered q < last_delivered (dequeues n q') \<and>
         job_id r2 = e_request_id (stream q ! last_delivered (dequeues n q')))"
    by blast
qed

theorem dequeue_acknowledges_before_return_witness:
  "dequeue_job q_two = (Some req1, q_two\<lparr>last_delivered := 1\<rparr>) \<and>
   dequeue_job (dequeues 0 (q_two\<lparr>last_delivered := 1\<rparr>)) =
     (Some req2, q_two\<lparr>last_delivered := 2\<rparr>) \<and>
   last_delivered q_two = 0 \<and> length (stream q_two) = 2 \<and>
   job_id req1 = e_request_id (stream q_two ! 0) \<and>
   0 \<notin> set (pending (q_two\<lparr>last_delivered := 1\<rparr>)) \<and>
   last_delivered (dequeues 0 (q_two\<lparr>last_delivered := 1\<rparr>)) = 1 \<and>
   job_id req2 = e_request_id (stream q_two ! 1)"
proof -
  have "last_delivered q_two = 0" "length (stream q_two) = 2"
    by (simp_all add: q_two_eq)
  with dequeue_acknowledges_before_return
    [where q = q_two and r = req1 and q' = "q_two\<lparr>last_delivered := 1\<rparr>"
       and n = 0 and ?r2.0 = req2 and ?q2.0 = "q_two\<lparr>last_delivered := 2\<rparr>"]
    dequeue_q_two
  show ?thesis by simp
qed

text \<open>
  C3 as stated fails: once \<open>dequeue_job\<close> has returned the only entry's job, and before
  any processing, the pending set is empty, and the next \<open>dequeue_job\<close> returns nothing.
\<close>

theorem at_least_once_counterexample:
  "fst (dequeue_job q_sync) = Some req1 \<and>
   pending (snd (dequeue_job q_sync)) = [] \<and>
   fst (dequeue_job (snd (dequeue_job q_sync))) = None"
  by (simp add: q_sync_eq dequeue_job_def xreadgroup_def xack_def req1_def)

section \<open>Vendor selection\<close>







section \<open>The rate limiter\<close>

lemma min_interval_wait:
  "min_interval (snd (wait_if_needed rl c w)) = min_interval rl"
  by (simp add: wait_if_needed_def Let_def)

lemma last_call_time_wait:
  "last_call_time (snd (wait_if_needed rl c w)) = w"
  by (simp add: wait_if_needed_def Let_def)

lemma wait_gap:
  "clock_ok rl c w \<Longrightarrow> min_interval rl \<le> w - last_call_time rl"
  by (auto simp: clock_ok_def wait_if_needed_def Let_def split: if_splits)

lemma gaps_from_last:
  "clocks_ok rl calls \<Longrightarrow>
     gaps_at_least (min_interval rl) (last_call_time rl # admitted rl calls)"
proof (induction calls arbitrary: rl)
  case Nil
  show ?case by simp
next
  case (Cons call calls)
  obtain c w where call: "call = (c, w)" by (cases call)
  let ?rl = "snd (wait_if_needed rl c w)"
  from Cons.prems call have ok: "clock_ok rl c w" and rest: "clocks_ok ?rl calls"
    by simp_all
  from Cons.IH [OF rest]
  have "gaps_at_least (min_interval rl) (w # admitted ?rl calls)"
    by (simp add: min_interval_wait last_call_time_wait)
  with wait_gap [OF ok] call show ?case by simp
qed

lemma gaps_tail: "gaps_at_least g (a # ts) \<Longrightarrow> gaps_at_least g ts"
  by (cases ts) simp_all

lemma min_interval_limiter_after:
  "min_interval (limiter_after rl calls) = min_interval rl"
  by (induction rl calls rule: limiter_after.induct) (simp_all add: min_interval_wait)

lemma rl5_init: "RateLimiter_init 5 = Inr rl5"
  by (simp add: RateLimiter_init_def rl5_def)

lemma calls5_ok: "clocks_ok rl5 calls5"
  by (simp add: calls5_def rl5_def clock_ok_def wait_if_needed_def Let_def)

lemma calls5_admitted: "admitted rl5 calls5 = [1000, 5001 / 5, 5002 / 5]"
  by (simp add: calls5_def)

lemma calls5_after: "last_call_time (limiter_after rl5 calls5) = 5002 / 5"
  by (simp add: calls5_def last_call_time_wait)

text \<open>
  C7. For a limiter constructed with \<open>calls_per_second = n\<close> and any run of calls on it
  (the clock keeping its promise at each), the times at which consecutive calls are
  admitted lie at least \<open>1 / n\<close> seconds apart. And whatever the run was, and however long
  the channel had been idle in it, a call that arrives less than \<open>1 / n\<close> after the last
  admitted call is not admitted at once: it sleeps for the remainder of the interval.
\<close>

theorem rate_limiter_min_interval:
  assumes "RateLimiter_init n = Inr rl0" and "clocks_ok rl0 calls"
  shows "gaps_at_least (1 / real_of_int n) (admitted rl0 calls) \<and>
         (current_time - last_call_time (limiter_after rl0 calls) < 1 / real_of_int n \<longrightarrow>
            fst (wait_if_needed (limiter_after rl0 calls) current_time wake_time) =
              Some (1 / real_of_int n - (current_time - last_call_time (limiter_after rl0 calls))))"
proof -
  from assms(1) have m: "min_interval rl0 = 1 / real_of_int n"
    by (auto simp: RateLimiter_init_def split: if_splits)
  from gaps_from_last [OF assms(2)] have "gaps_at_least (1 / real_of_int n) (admitted rl0 calls)"
    unfolding m by (rule gaps_tail)
  moreover have "min_interval (limiter_after rl0 calls) = 1 / real_of_int n"
    by (simp add: min_interval_limiter_after m)
  ultimately show ?thesis
    by (simp add: wait_if_needed_def Let_def)
qed

theorem rate_limiter_min_interval_witness:
  "RateLimiter_init 5 = Inr rl5 \<and> clocks_ok rl5 calls5 \<and>
   admitted rl5 calls5 = [1000, 5001 / 5, 5002 / 5] \<and>
   gaps_at_least (1 / 5) [1000, 5001 / 5, 5002 / 5] \<and>
   last_call_time (limiter_after rl5 calls5) = 5002 / 5 \<and>
   fst (wait_if_needed (limiter_after rl5 calls5) (2001 / 2) (5003 / 5)) = Some (1 / 10)"
proof -
  have "(2001 / 2 :: real) - 5002 / 5 < 1 / real_of_int 5" by simp
  with rate_limiter_min_interval [OF rl5_init calls5_ok,
      where current_time = "2001 / 2" and wake_time = "5003 / 5"]
  have "gaps_at_least (1 / 5) [1000, 5001 / 5, 5002 / 5]"
    and "fst (wait_if_needed (limiter_after rl5 calls5) (2001 / 2) (5003 / 5)) = Some (1 / 10)"
    by (simp_all add: calls5_admitted calls5_after)
  then show ?thesis
    by (simp add: rl5_init calls5_ok calls5_admitted calls5_after)
qed

end
